theory Spec2Isabelle
  imports Complex_Main "HOL-Library.Sublist"
begin

section \<open>Python strings\<close>

text \<open>
  A Python \<open>str\<close> is modelled by the \<open>string\<close> (list of 8-bit characters) holding its
  UTF-8 encoding, so that every text of the program, the prompt template's non-ASCII
  characters included, can be written down.  The string methods the program calls are
  modelled on this encoding with the meaning they have on code points: every pattern the
  program searches for is ASCII, and an ASCII byte never occurs inside the encoding of
  another code point.
\<close>

definition NL :: char where
  "NL = CHR ''\<newline>''"

definition utf8_continuation :: "char \<Rightarrow> bool" where
  \<comment> \<open>bytes \<open>0x80..0xBF\<close> continue a code point, every other byte starts one\<close>
  "utf8_continuation c = (128 \<le> (of_char c :: nat) \<and> (of_char c :: nat) < 192)"

subsection \<open>\<open>str.replace(old, new)\<close>\<close>

text \<open>
  Python scans from the left, replaces the first occurrence of \<open>old\<close> it meets and
  goes on after it, so the occurrences replaced do not overlap.
\<close>

fun replace_scan :: "string \<Rightarrow> string \<Rightarrow> string \<Rightarrow> string" where
  "replace_scan old new [] = []"
| "replace_scan old new (c # cs) =
     (if prefix old (c # cs) then new @ replace_scan old new (drop (length old - 1) cs)
      else c # replace_scan old new cs)"

definition py_replace :: "string \<Rightarrow> string \<Rightarrow> string \<Rightarrow> string" where
  \<comment> \<open>an empty \<open>old\<close> matches before every code point and at the end\<close>
  "py_replace old new s =
     (if old = [] then concat (map (\<lambda>c. if utf8_continuation c then [c] else new @ [c]) s) @ new
      else replace_scan old new s)"

subsection \<open>\<open>str.strip()\<close>\<close>

definition ws_tokens :: "string list" where
  \<comment> \<open>the code points \<open>c\<close> with \<open>c.isspace()\<close>, in UTF-8: U+0009..U+000D, U+001C..U+0020,
      U+0085, U+00A0, U+1680, U+2000..U+200A, U+2028, U+2029, U+202F, U+205F, U+3000\<close>
  "ws_tokens =
     [[CHR 0x09], [CHR 0x0A], [CHR 0x0B], [CHR 0x0C], [CHR 0x0D],
      [CHR 0x1C], [CHR 0x1D], [CHR 0x1E], [CHR 0x1F], [CHR 0x20],
      [CHR 0xC2, CHR 0x85], [CHR 0xC2, CHR 0xA0],
      [CHR 0xE1, CHR 0x9A, CHR 0x80],
      [CHR 0xE2, CHR 0x80, CHR 0x80], [CHR 0xE2, CHR 0x80, CHR 0x81],
      [CHR 0xE2, CHR 0x80, CHR 0x82], [CHR 0xE2, CHR 0x80, CHR 0x83],
      [CHR 0xE2, CHR 0x80, CHR 0x84], [CHR 0xE2, CHR 0x80, CHR 0x85],
      [CHR 0xE2, CHR 0x80, CHR 0x86], [CHR 0xE2, CHR 0x80, CHR 0x87],
      [CHR 0xE2, CHR 0x80, CHR 0x88], [CHR 0xE2, CHR 0x80, CHR 0x89],
      [CHR 0xE2, CHR 0x80, CHR 0x8A],
      [CHR 0xE2, CHR 0x80, CHR 0xA8], [CHR 0xE2, CHR 0x80, CHR 0xA9],
      [CHR 0xE2, CHR 0x80, CHR 0xAF], [CHR 0xE2, CHR 0x81, CHR 0x9F],
      [CHR 0xE3, CHR 0x80, CHR 0x80]]"

definition leading_token :: "string list \<Rightarrow> string \<Rightarrow> string option" where
  "leading_token toks s = find (\<lambda>t. t \<noteq> [] \<and> prefix t s) toks"

function strip_front :: "string list \<Rightarrow> string \<Rightarrow> string" where
  "strip_front toks s =
     (case leading_token toks s of
        None \<Rightarrow> s
      | Some t \<Rightarrow> strip_front toks (drop (length t) s))"
  by pat_completeness auto
termination
proof (relation "measure (\<lambda>(toks, s). length s)")
  fix toks :: "string list" and s t :: string
  assume "leading_token toks s = Some t"
  then have "t \<noteq> []" and "prefix t s"
    by (auto simp: leading_token_def find_Some_iff)
  then have "s \<noteq> []" and "0 < length t"
    by auto
  then show "((toks, drop (length t) s), (toks, s)) \<in> measure (\<lambda>(toks, s). length s)"
    by simp
qed simp

declare strip_front.simps [simp del]

definition py_lstrip :: "string \<Rightarrow> string" where
  "py_lstrip s = strip_front ws_tokens s"

definition py_rstrip :: "string \<Rightarrow> string" where
  "py_rstrip s = rev (strip_front (map rev ws_tokens) (rev s))"

definition py_strip :: "string \<Rightarrow> string" where
  "py_strip s = py_rstrip (py_lstrip s)"

definition py_endswith :: "string \<Rightarrow> string \<Rightarrow> bool" where
  "py_endswith s suf = suffix suf s"

subsection \<open>Slices, \<open>join\<close>, \<open>in\<close>, \<open>lower()\<close>\<close>

fun py_slice_to :: "nat \<Rightarrow> string \<Rightarrow> string" where
  \<comment> \<open>\<open>s[:n]\<close>: the first \<open>n\<close> code points\<close>
  "py_slice_to n [] = []"
| "py_slice_to n (c # cs) =
     (if utf8_continuation c then c # py_slice_to n cs
      else (case n of 0 \<Rightarrow> [] | Suc m \<Rightarrow> c # py_slice_to m cs))"

fun py_join :: "string \<Rightarrow> string list \<Rightarrow> string" where
  "py_join sep [] = []"
| "py_join sep [x] = x"
| "py_join sep (x # y # ys) = x @ sep @ py_join sep (y # ys)"

definition py_repeat :: "string \<Rightarrow> nat \<Rightarrow> string" where
  \<comment> \<open>\<open>s * n\<close>\<close>
  "py_repeat s n = concat (replicate n s)"

fun py_in :: "string \<Rightarrow> string \<Rightarrow> bool" where
  \<comment> \<open>\<open>sub in s\<close>\<close>
  "py_in sub [] = (sub = [])"
| "py_in sub (c # cs) = (prefix sub (c # cs) \<or> py_in sub cs)"

definition lower_char :: "char \<Rightarrow> char" where
  "lower_char c =
     (case map_of (zip ''ABCDEFGHIJKLMNOPQRSTUVWXYZ'' ''abcdefghijklmnopqrstuvwxyz'') c of
        None \<Rightarrow> c
      | Some l \<Rightarrow> l)"

text \<open>
  \<open>str.lower()\<close> is modelled on the ASCII letters and on the two other code points whose
  lower case has an ASCII letter: U+212A KELVIN SIGN becomes \<open>k\<close>, and U+0130 becomes
  \<open>i\<close> followed by U+0307.  Every other code point beyond ASCII is left as it is; Python
  maps it to code points beyond ASCII again, none of which the ASCII terms of the program
  can match.
\<close>

fun py_lower :: "string \<Rightarrow> string" where
  "py_lower [] = []"
| "py_lower (c # cs) =
     (if prefix [CHR 0xE2, CHR 0x84, CHR 0xAA] (c # cs) then CHR ''k'' # py_lower (drop 2 cs)
      else if prefix [CHR 0xC4, CHR 0xB0] (c # cs)
        then [CHR ''i'', CHR 0xCC, CHR 0x87] @ py_lower (drop 1 cs)
      else lower_char c # py_lower cs)"

subsection \<open>Numbers in f-strings\<close>

fun digits :: "nat \<Rightarrow> string" where
  "digits n =
     (if n < 10 then [''0123456789'' ! n]
      else digits (n div 10) @ [''0123456789'' ! (n mod 10)])"

declare digits.simps [simp del]

definition py_str_int :: "int \<Rightarrow> string" where
  "py_str_int i = (if i < 0 then ''-'' @ digits (nat (- i)) else digits (nat i))"

text \<open>
  A Python \<open>float\<close> is a finite value (a rational; every double is one), minus zero, an
  infinity or NaN.  \<open>format(x, '.2f')\<close> rounds the exact value to two decimals, a tie to
  the even neighbour, and keeps the sign of a negative value that rounds to zero.
\<close>

datatype pyfloat = Float rat | NegZero | PosInf | NegInf | NaN

definition round_half_even :: "rat \<Rightarrow> int" where
  "round_half_even q =
     (let f = \<lfloor>q\<rfloor>; d = q - of_int f
      in if d < 1 / 2 then f else if 1 / 2 < d then f + 1 else if even f then f else f + 1)"

definition format_2f :: "pyfloat \<Rightarrow> string" where
  "format_2f x =
     (case x of
        Float r \<Rightarrow>
          (let n = nat (round_half_even (\<bar>r\<bar> * 100))
           in (if r < 0 then ''-'' else []) @ digits (n div 100) @ ''.''
              @ digits (n mod 100 div 10) @ digits (n mod 10))
      | NegZero \<Rightarrow> ''-0.00''
      | PosInf \<Rightarrow> ''inf''
      | NegInf \<Rightarrow> ''-inf''
      | NaN \<Rightarrow> ''nan'')"

section \<open>Exceptions and effects\<close>

datatype exn_class =
    TypeError | ValueError | KeyError | IndexError | AttributeError
  | Other string  \<comment> \<open>any other subclass of \<open>Exception\<close>, by name\<close>
  | KeyboardInterrupt | SystemExit  \<comment> \<open>\<open>BaseException\<close>, outside \<open>Exception\<close>\<close>

datatype exn = Exn (exn_class: exn_class) (exn_str: string)

definition is_Exception :: "exn \<Rightarrow> bool" where
  \<comment> \<open>what \<open>except Exception\<close> catches\<close>
  "is_Exception e = (exn_class e \<noteq> KeyboardInterrupt \<and> exn_class e \<noteq> SystemExit)"

record chat_request =
  model :: string
  messages :: "(string \<times> string) list"  \<comment> \<open>role and content of each message\<close>
  temperature :: rat
  max_tokens :: int
  top_p :: rat
  stream :: bool

datatype chat_message = ChatMessage (content: "string option")

datatype choice = Choice (message: chat_message)

datatype chat_completion = ChatCompletion (choices: "choice list")

text \<open>
  The effects of a run: the lines written to standard output and the calls made to the
  remote completion endpoint, each in the order they happen.
\<close>

record world =
  stdout :: "string list"
  completion_calls :: "chat_request list"

definition quoted :: "string \<Rightarrow> string" where
  "quoted s = [CHR 0x27] @ s @ [CHR 0x27]"

definition print :: "string \<Rightarrow> world \<Rightarrow> world" where
  "print line w = w\<lparr>stdout := stdout w @ [line]\<rparr>"

section \<open>\<open>str.format\<close> with keyword arguments\<close>

text \<open>
  The template is read from the left: \<open>{{\<close> and \<open>}}\<close> stand for one brace, \<open>{name}\<close>
  is replaced by the keyword argument \<open>name\<close>, a brace on its own is a \<open>ValueError\<close>.
  The values put in are never read again.  A replacement field with a conversion
  (\<open>!r\<close>), a format specification (\<open>:...\<close>) or an attribute or index access is not
  modelled: the template of this program has only the plain fields \<open>{context}\<close> and
  \<open>{question}\<close>.
\<close>

definition get_field :: "(string \<times> string) list \<Rightarrow> string \<Rightarrow> exn + string" where
  "get_field kwargs field =
     (if CHR ''{'' \<in> set field then Inl (Exn ValueError ''unexpected '{' in field name'')
      else if list_all (\<lambda>d. d \<in> set ''0123456789'') field
        then Inl (Exn IndexError (''Replacement index '' @ (if field = [] then ''0'' else field)
                   @ '' out of range for positional args tuple''))
      else (case map_of kwargs field of
              None \<Rightarrow> Inl (Exn KeyError (quoted field))
            | Some v \<Rightarrow> Inr v))"

definition prepend :: "string \<Rightarrow> exn + string \<Rightarrow> exn + string" where
  \<comment> \<open>text already produced, before the outcome of the rest of the template\<close>
  "prepend s r = (case r of Inl e \<Rightarrow> Inl e | Inr out \<Rightarrow> Inr (s @ out))"

function format_scan :: "(string \<times> string) list \<Rightarrow> string \<Rightarrow> exn + string" where
  "format_scan kwargs [] = Inr []"
| "format_scan kwargs (c # cs) =
     (if c = CHR ''{'' then
        (if cs = [] then Inl (Exn ValueError ''Single '{' encountered in format string'')
         else if hd cs = CHR ''{'' then prepend ''{'' (format_scan kwargs (tl cs))
         else
           (let field = takeWhile (\<lambda>d. d \<noteq> CHR ''}'') cs;
                rest = dropWhile (\<lambda>d. d \<noteq> CHR ''}'') cs
            in if rest = [] then Inl (Exn ValueError ''expected '}' before end of string'')
               else (case get_field kwargs field of
                       Inl e \<Rightarrow> Inl e
                     | Inr v \<Rightarrow> prepend v (format_scan kwargs (tl rest)))))
      else if c = CHR ''}'' then
        (if cs \<noteq> [] \<and> hd cs = CHR ''}''
           then prepend ''}'' (format_scan kwargs (tl cs))
         else Inl (Exn ValueError ''Single '}' encountered in format string''))
      else prepend [c] (format_scan kwargs cs))"
  by pat_completeness auto
termination
proof (relation "measure (\<lambda>(kwargs, s). length s)")
  fix kwargs :: "(string \<times> string) list" and c :: char and cs rest :: string
  assume "rest = dropWhile (\<lambda>d. d \<noteq> CHR ''}'') cs"
  then have "length rest \<le> length cs"
    by (simp add: length_dropWhile_le)
  then show "((kwargs, tl rest), (kwargs, c # cs)) \<in> measure (\<lambda>(kwargs, s). length s)"
    by simp
qed auto

definition py_format :: "string \<Rightarrow> (string \<times> string) list \<Rightarrow> exn + string" where
  \<comment> \<open>\<open>template.format(**kwargs)\<close>\<close>
  "py_format template kwargs = format_scan kwargs template"

section \<open>\<open>format_medical_response\<close>\<close>

definition format_medical_response :: "string \<Rightarrow> string" where
  "format_medical_response response0 =
     (let response = py_replace ''**'' '''' response0;
          response = py_replace ''*'' '''' response;
          response = py_replace [NL, NL, NL] [NL, NL] response;
          response = py_strip response;
          disclaimer = '''';
          response = (if \<not> py_endswith response (py_strip disclaimer)
                      then response @ disclaimer else response)
      in response)"

section \<open>The prompt template\<close>

definition create_medical_prompt_template :: string where
  \<comment> \<open>the lines of the literal, joined by newlines\<close>
  "create_medical_prompt_template = py_join [NL]
     [''You are an expert medical assistant with access to comprehensive medical knowledge.'',
      '''',
      ''Based on the provided medical context, answer the user's question clearly and accurately.'',
      '''',
      ''GUIDELINES:'',
      ''1) Provide clear, well-structured responses.'',
      ''2) Use bullet points or numbered lists for complex information.'',
      ''3) Explain medical terms in simple language.'',
      ''4) Be specific and factual based on the context.'',
      ''5) If the context doesn't contain relevant information, clearly state this.'',
      ''6) Don't use + for bullet points and use ''
        @ [CHR 0xC3, CHR 0xA2, CHR 0xE2, CHR 0x82, CHR 0xAC, CHR 0xC2, CHR 0xA2] @ '' .'',
      '''',
      ''MEDICAL CONTEXT:'',
      ''{context}'',
      '''',
      ''USER QUESTION: {question}'',
      '''',
      ''RESPONSE:'']"

definition fill_prompt :: "string \<Rightarrow> string \<Rightarrow> exn + string" where
  \<comment> \<open>\<open>prompt_template.format(context=context, question=query)\<close>\<close>
  "fill_prompt context query =
     py_format create_medical_prompt_template [(''context'', context), (''question'', query)]"

section \<open>\<open>retrieve_relevant_context\<close>\<close>

text \<open>
  \<open>similarity_search\<close> lives in \<open>utils/vector_database.py\<close>, which is not among the
  sources: it is a parameter, a function from the query and \<open>k\<close> to the exception it
  raises or the list of \<open>(text, score, metadata)\<close> results it returns.
\<close>

type_synonym 'm scored_result = "string \<times> pyfloat \<times> 'm"

type_synonym 'm search = "string \<Rightarrow> int \<Rightarrow> exn + 'm scored_result list"

definition context_piece :: "int \<Rightarrow> string \<Rightarrow> pyfloat \<Rightarrow> string" where
  "context_piece i text score =
     ''[Source '' @ py_str_int i @ '' - Relevance: '' @ format_2f score @ '']'' @ [NL]
     @ py_strip text"

fun context_loop :: "int \<Rightarrow> 'm scored_result list \<Rightarrow> string list \<Rightarrow> string list" where
  \<comment> \<open>\<open>for i, (text, score, metadata) in enumerate(results, i): contexts.append(...)\<close>\<close>
  "context_loop i [] contexts = contexts"
| "context_loop i ((text, score, metadata) # results) contexts =
     context_loop (i + 1) results (contexts @ [context_piece i text score])"

definition no_context :: string where
  "no_context = ''No relevant medical information found in the knowledge base.''"

definition retrieve_relevant_context ::
  "'m search \<Rightarrow> string \<Rightarrow> int \<Rightarrow> world \<Rightarrow> (exn + string) \<times> world" where
  "retrieve_relevant_context similarity_search query top_k w0 =
     (let w1 = print (''Retrieving relevant context for: ''
                       @ quoted (py_slice_to 50 query @ ''...'')) w0
      in case similarity_search query top_k of
           Inl e \<Rightarrow> (Inl e, w1)
         | Inr results \<Rightarrow>
             if results = [] then (Inr no_context, print ''No relevant context found'' w1)
             else
               (let contexts = context_loop 1 results [];
                    formatted_context = [NL, NL] @ py_repeat ''='' 50 @ py_join [NL, NL] contexts
                in (Inr formatted_context,
                    print (''Retrieved '' @ py_str_int (int (length results))
                           @ '' relevant contexts'') w1)))"

section \<open>\<open>generate_medical_response\<close>\<close>

type_synonym endpoint = "chat_request \<Rightarrow> exn + chat_completion"

definition completion_request :: "string \<Rightarrow> chat_request" where
  "completion_request prompt =
     \<lparr>model = ''llama-3.3-70b-versatile'',
      messages = [(''user'', prompt)],
      temperature = 2 / 10,
      max_tokens = 1200,
      top_p = 9 / 10,
      stream = False\<rparr>"

definition apology :: string where
  "apology = ''I apologize, but I encountered an error while processing your medical question. Please try rephrasing your question or consult a healthcare professional directly.''"

definition generate_body ::
  "'m search \<Rightarrow> endpoint \<Rightarrow> string \<Rightarrow> world \<Rightarrow> (exn + string) \<times> world" where
  \<comment> \<open>the body of the \<open>try\<close>: \<open>Inl\<close> is the exception that leaves it\<close>
  "generate_body similarity_search groq_client query w0 =
     (case retrieve_relevant_context similarity_search query 4 w0 of
        (Inl e, w1) \<Rightarrow> (Inl e, w1)
      | (Inr context, w1) \<Rightarrow>
          (case fill_prompt context query of
             Inl e \<Rightarrow> (Inl e, w1)
           | Inr prompt \<Rightarrow>
               (let request = completion_request prompt;
                    w2 = w1\<lparr>completion_calls := completion_calls w1 @ [request]\<rparr>
                in case groq_client request of
                     Inl e \<Rightarrow> (Inl e, w2)
                   | Inr completion \<Rightarrow>
                       (case choices completion of
                          [] \<Rightarrow> (Inl (Exn IndexError ''list index out of range''), w2)
                        | first # _ \<Rightarrow>
                            (case content (message first) of
                               None \<Rightarrow>
                                 (Inl (Exn AttributeError
                                    (quoted ''NoneType'' @ '' object has no attribute ''
                                     @ quoted ''replace'')), w2)
                             | Some response \<Rightarrow>
                                 (Inr (format_medical_response response),
                                  print ''Medical response generated successfully'' w2))))))"

definition generate_medical_response ::
  "'m search \<Rightarrow> endpoint \<Rightarrow> string \<Rightarrow> world \<Rightarrow> (exn + string) \<times> world" where
  "generate_medical_response similarity_search groq_client query w0 =
     (case generate_body similarity_search groq_client query
             (print ''Generating response for query...'' w0) of
        (Inr formatted_response, w1) \<Rightarrow> (Inr formatted_response, w1)
      | (Inl e, w1) \<Rightarrow>
          if is_Exception e
          then (Inr apology, print (''Error generating medical response: '' @ exn_str e) w1)
          else (Inl e, w1))"

section \<open>\<open>validate_medical_query\<close>\<close>

definition medical_indicators :: "string list" where
  "medical_indicators =
     [''symptom'', ''disease'', ''condition'', ''treatment'', ''medicine'', ''medication'',
      ''diagnosis'', ''doctor'', ''hospital'', ''pain'', ''fever'', ''infection'',
      ''medical'', ''health'', ''illness'', ''therapy'', ''surgery'', ''procedure'',
      ''blood'', ''heart'', ''lung'', ''brain'', ''liver'', ''kidney'', ''cancer'',
      ''diabetes'', ''hypertension'', ''pneumonia'', ''what is'', ''how to treat'',
      ''causes of'', ''prevention'', ''cure'', ''relief'']"

definition validate_medical_query :: "string \<Rightarrow> bool" where
  "validate_medical_query query =
     (let query_lower = py_lower query
      in list_ex (\<lambda>indicator. py_in indicator query_lower) medical_indicators)"

section \<open>The \<open>/query\<close> route of \<open>app.py\<close>\<close>

text \<open>
  The objects the route passes around.  A call binds its positional arguments to the
  parameters of the function; with more or fewer arguments than parameters Python raises
  \<open>TypeError\<close> before the body runs.  \<open>Embeddings\<close> and \<open>VectorDB\<close> stand for the objects
  made by \<open>utils/vector_database.py\<close>, whose classes are not among the sources: like the
  client they are taken to have no slicing, and to have no attribute \<open>chat\<close>, and their
  names stand for the names of their classes.
\<close>

datatype pyobj = Str string | GroqClient | Embeddings | VectorDB

definition type_name :: "pyobj \<Rightarrow> string" where
  "type_name obj =
     (case obj of Str s \<Rightarrow> ''str'' | GroqClient \<Rightarrow> ''Groq'' | Embeddings \<Rightarrow> ''Embeddings''
      | VectorDB \<Rightarrow> ''VectorDB'')"

definition handle_exception :: "exn \<Rightarrow> world \<Rightarrow> (exn + string) \<times> world" where
  \<comment> \<open>the \<open>except Exception\<close> clause of \<open>generate_medical_response\<close>\<close>
  "handle_exception e w =
     (if is_Exception e
      then (Inr apology, print (''Error generating medical response: '' @ exn_str e) w)
      else (Inl e, w))"

definition call_generate_medical_response ::
  "'m search \<Rightarrow> endpoint \<Rightarrow> pyobj list \<Rightarrow> world \<Rightarrow> (exn + string) \<times> world" where
  \<comment> \<open>\<open>def generate_medical_response(query: str, groq_client: Groq)\<close> applied to positional
      arguments.  Two arguments are bound whatever they are, and the body runs: a \<open>query\<close>
      that is no string fails at \<open>query[:50]\<close>, a \<open>groq_client\<close> that is no client fails at
      \<open>groq_client.chat\<close>, both inside the \<open>try\<close>.\<close>
  "call_generate_medical_response similarity_search endpoint args w =
     (case args of
        [] \<Rightarrow>
          (Inl (Exn TypeError
             (''generate_medical_response() missing 2 required positional arguments: ''
              @ quoted ''query'' @ '' and '' @ quoted ''groq_client'')), w)
      | [a] \<Rightarrow>
          (Inl (Exn TypeError
             (''generate_medical_response() missing 1 required positional argument: ''
              @ quoted ''groq_client'')), w)
      | [query, groq_client] \<Rightarrow>
          (case query of
             Str q \<Rightarrow>
               (case groq_client of
                  GroqClient \<Rightarrow> generate_medical_response similarity_search endpoint q w
                | other \<Rightarrow>
                    (case retrieve_relevant_context similarity_search q 4
                            (print ''Generating response for query...'' w) of
                       (Inl e, w1) \<Rightarrow> handle_exception e w1
                     | (Inr context, w1) \<Rightarrow>
                         (case fill_prompt context q of
                            Inl e \<Rightarrow> handle_exception e w1
                          | Inr prompt \<Rightarrow>
                              handle_exception
                                (Exn AttributeError
                                   (quoted (type_name other) @ '' object has no attribute ''
                                    @ quoted ''chat'')) w1)))
           | other \<Rightarrow>
               handle_exception
                 (Exn TypeError (quoted (type_name other) @ '' object is not subscriptable''))
                 (print ''Generating response for query...'' w))
      | _ \<Rightarrow>
          (Inl (Exn TypeError
             (''generate_medical_response() takes 2 positional arguments but ''
              @ py_str_int (int (length args)) @ '' were given'')), w))"

datatype json = JString string | JNumber int | JBool bool | JNull
  | JOther string  \<comment> \<open>any other value, by the name of its Python type\<close>

definition json_type :: "json \<Rightarrow> string" where
  "json_type v =
     (case v of JString s \<Rightarrow> ''str'' | JNumber n \<Rightarrow> ''int'' | JBool b \<Rightarrow> ''bool''
      | JNull \<Rightarrow> ''NoneType'' | JOther name \<Rightarrow> name)"

type_synonym http_response = "(string \<times> string) list \<times> nat"

definition query ::
  "'m search \<Rightarrow> endpoint \<Rightarrow> string \<Rightarrow> (string \<rightharpoonup> json) \<Rightarrow> world
     \<Rightarrow> (exn + http_response) \<times> world" where
  \<comment> \<open>\<open>data\<close> is the JSON object of the request, \<open>now\<close> the text of \<open>datetime.now()\<close>\<close>
  "query similarity_search endpoint now data w0 =
     (case (case data ''question'' of None \<Rightarrow> JString '''' | Some v \<Rightarrow> v) of
        JString raw \<Rightarrow>
          (let question = py_strip raw
           in if question = [] then (Inr ([(''error'', ''No question provided'')], 400), w0)
              else if \<not> validate_medical_query question
                then (Inr ([(''error'', ''Inappropriate query'')], 400), w0)
              else
                (case call_generate_medical_response similarity_search endpoint
                        [GroqClient, Embeddings, VectorDB, Str question] w0 of
                   (Inr answer, w1) \<Rightarrow>
                     (Inr ([(''question'', question), (''answer'', answer)], 200), w1)
                 | (Inl e, w1) \<Rightarrow>
                     if is_Exception e
                     then (Inr ([(''error'', ''Internal server error'')], 500),
                           print (''['' @ now @ ''] Error during response generation: ''
                                  @ exn_str e) w1)
                     else (Inl e, w1)))
      | v \<Rightarrow> (Inl (Exn AttributeError
                 (quoted (json_type v) @ '' object has no attribute '' @ quoted ''strip'')), w0))"

section \<open>Notions used in the statements\<close>


definition collapse :: "string \<Rightarrow> string" where
  "collapse s = replace_scan [NL, NL, NL] [NL, NL] s"

text \<open>The three pieces of the template around its two replacement fields.\<close>

definition prompt_head :: string where
  "prompt_head = py_join [NL]
     [''You are an expert medical assistant with access to comprehensive medical knowledge.'',
      '''',
      ''Based on the provided medical context, answer the user's question clearly and accurately.'',
      '''',
      ''GUIDELINES:'',
      ''1) Provide clear, well-structured responses.'',
      ''2) Use bullet points or numbered lists for complex information.'',
      ''3) Explain medical terms in simple language.'',
      ''4) Be specific and factual based on the context.'',
      ''5) If the context doesn't contain relevant information, clearly state this.'',
      ''6) Don't use + for bullet points and use ''
        @ [CHR 0xC3, CHR 0xA2, CHR 0xE2, CHR 0x82, CHR 0xAC, CHR 0xC2, CHR 0xA2] @ '' .'',
      '''',
      ''MEDICAL CONTEXT:'',
      '''']"

definition prompt_mid :: string where
  "prompt_mid = py_join [NL] ['''', '''', ''USER QUESTION: '']"

definition prompt_tail :: string where
  "prompt_tail = py_join [NL] ['''', '''', ''RESPONSE:'']"

text \<open>
  Sample collaborators for the concrete runs below: an empty standard output, a search
  that finds two chunks (with braces in them), one that finds none and one that raises, an
  endpoint that answers and one that times out.
\<close>

definition empty_world :: world where
  "empty_world = \<lparr>stdout = [], completion_calls = []\<rparr>"

definition sample_search :: "unit search" where
  "sample_search q k =
     Inr [(''  Fever is a {rise} in body temperature.  '', Float (7 / 8), ()),
          (''Pneumonia inflames the lungs}'', Float (1 / 2), ())]"

definition empty_search :: "unit search" where
  "empty_search q k = Inr []"


definition sample_endpoint :: endpoint where
  "sample_endpoint request =
     Inr (ChatCompletion [Choice (ChatMessage (Some ''**Fever** is a rise in temperature.''))])"


text \<open>The context string that \<open>retrieve_relevant_context\<close> builds from the two sample chunks.\<close>

definition sample_context :: string where
  "sample_context =
     [NL, NL] @ py_repeat ''='' 50
     @ ''[Source 1 - Relevance: 0.88]'' @ [NL] @ ''Fever is a {rise} in body temperature.''
     @ [NL, NL]
     @ ''[Source 2 - Relevance: 0.50]'' @ [NL] @ ''Pneumonia inflames the lungs}''"


section \<open>Facts about the string operations\<close>

subsection \<open>\<open>format_medical_response\<close>: asterisks, trimming, newlines\<close>

lemma format_hello_world: "format_medical_response ''**Hello**\<newline>\<newline>\<newline>\<newline>World'' = ''Hello\<newline>\<newline>\<newline>World''"
  by (simp add: format_medical_response_def py_replace_def py_strip_def py_lstrip_def py_rstrip_def
      strip_front.simps leading_token_def ws_tokens_def py_endswith_def NL_def)































subsection \<open>Filling the template\<close>

lemma template_parts:
  "create_medical_prompt_template
     = prompt_head @ ''{context}'' @ prompt_mid @ ''{question}'' @ prompt_tail"
  by (simp add: create_medical_prompt_template_def prompt_head_def prompt_mid_def prompt_tail_def)

lemma prepend_Nil: "prepend [] r = r"
  by (cases r) (simp_all add: prepend_def)

lemma prepend_prepend: "prepend s (prepend u r) = prepend (s @ u) r"
  by (cases r) (simp_all add: prepend_def)

lemma prepend_Inr: "prepend s (Inr out) = Inr (s @ out)"
  by (simp add: prepend_def)

lemma format_scan_plain:
  "c \<noteq> CHR ''{'' \<Longrightarrow> c \<noteq> CHR ''}'' \<Longrightarrow>
   format_scan kw (c # cs) = prepend [c] (format_scan kw cs)"
  by simp

lemma format_scan_literal:
  "CHR ''{'' \<notin> set s \<Longrightarrow> CHR ''}'' \<notin> set s \<Longrightarrow>
   format_scan kw (s @ r) = prepend s (format_scan kw r)"
proof (induction s)
  case Nil
  show ?case by (simp add: prepend_Nil)
next
  case (Cons c s)
  then have ih: "format_scan kw (s @ r) = prepend s (format_scan kw r)" by simp
  from Cons.prems have "c \<noteq> CHR ''{''" and "c \<noteq> CHR ''}''" by auto
  then have "format_scan kw ((c # s) @ r) = prepend [c] (format_scan kw (s @ r))"
    using format_scan_plain [of c kw "s @ r"] by (simp del: format_scan.simps)
  with ih show ?case by (simp add: prepend_prepend)
qed

lemma no_brace_head: "CHR ''{'' \<notin> set prompt_head \<and> CHR ''}'' \<notin> set prompt_head"
  by (simp add: prompt_head_def NL_def)

lemma no_brace_mid: "CHR ''{'' \<notin> set prompt_mid \<and> CHR ''}'' \<notin> set prompt_mid"
  by (simp add: prompt_mid_def NL_def)

lemma no_brace_tail: "CHR ''{'' \<notin> set prompt_tail \<and> CHR ''}'' \<notin> set prompt_tail"
  by (simp add: prompt_tail_def NL_def)

lemma format_scan_context:
  "format_scan [(''context'', c), (''question'', q)] (''{context}'' @ r)
     = prepend c (format_scan [(''context'', c), (''question'', q)] r)"
  by (simp add: get_field_def)

lemma format_scan_question:
  "format_scan [(''context'', c), (''question'', q)] (''{question}'' @ r)
     = prepend q (format_scan [(''context'', c), (''question'', q)] r)"
  by (simp add: get_field_def)

lemma format_scan_tail: "format_scan kw prompt_tail = Inr prompt_tail"
  using format_scan_literal [of prompt_tail kw "[]"] no_brace_tail by (simp add: prepend_Inr)

lemma fill_prompt_closed:
  "fill_prompt context question
     = Inr (prompt_head @ context @ prompt_mid @ question @ prompt_tail)"
  unfolding fill_prompt_def py_format_def template_parts
  by (simp only: format_scan_literal no_brace_head no_brace_mid not_False_eq_True
      format_scan_context format_scan_question format_scan_tail prepend_Inr)

section \<open>Facts about the pipeline\<close>

subsection \<open>Retrieval\<close>

lemma context_loop_append:
  "context_loop i results contexts = contexts @ context_loop i results []"
proof (induction results arbitrary: i contexts)
  case Nil
  show ?case by simp
next
  case (Cons r results)
  obtain tx sc md where r: "r = (tx, sc, md)" by (cases r)
  have "context_loop i (r # results) contexts
          = context_loop (i + 1) results (contexts @ [context_piece i tx sc])"
    by (simp add: r)
  also have "\<dots> = (contexts @ [context_piece i tx sc]) @ context_loop (i + 1) results []"
    by (rule Cons.IH)
  also have "\<dots> = contexts @ context_loop (i + 1) results [context_piece i tx sc]"
    using Cons.IH [of "i + 1" "[context_piece i tx sc]"] by simp
  finally show ?case by (simp add: r)
qed

lemma context_loop_length: "length (context_loop i results []) = length results"
proof (induction results arbitrary: i)
  case Nil
  show ?case by simp
next
  case (Cons r results)
  obtain tx sc md where r: "r = (tx, sc, md)" by (cases r)
  show ?case
    using Cons [of "i + 1"] context_loop_append [of "i + 1" results "[context_piece i tx sc]"]
    by (simp add: r)
qed

lemma context_loop_nth:
  "j < length results \<Longrightarrow>
   context_loop i results [] ! j
     = context_piece (i + int j) (fst (results ! j)) (fst (snd (results ! j)))"
proof (induction results arbitrary: i j)
  case Nil
  then show ?case by simp
next
  case (Cons r results)
  obtain tx sc md where r: "r = (tx, sc, md)" by (cases r)
  have step: "context_loop i (r # results) []
                = context_piece i tx sc # context_loop (i + 1) results []"
    using context_loop_append [of "i + 1" results "[context_piece i tx sc]"]
    by (simp add: r)
  show ?case
  proof (cases j)
    case 0
    then show ?thesis unfolding step by (simp add: r)
  next
    case (Suc k)
    with Cons.prems have "k < length results" by simp
    from Cons.IH [OF this, of "i + 1"] Suc show ?thesis
      unfolding step by (simp add: add.assoc)
  qed
qed

lemma retrieve_empty:
  "similarity_search q top_k = Inr [] \<Longrightarrow>
   fst (retrieve_relevant_context similarity_search q top_k w) = Inr no_context"
  by (simp add: retrieve_relevant_context_def Let_def)

lemma retrieve_nonempty:
  "similarity_search q top_k = Inr results \<Longrightarrow> results \<noteq> [] \<Longrightarrow>
   fst (retrieve_relevant_context similarity_search q top_k w)
     = Inr ([NL, NL] @ replicate 50 CHR ''='' @ py_join [NL, NL] (context_loop 1 results []))"
  by (simp add: retrieve_relevant_context_def Let_def py_repeat_def)

subsection \<open>Validation\<close>

lemma py_in_sublist: "py_in sub s = sublist sub s"
  by (induction s) (simp_all add: sublist_Cons_right)

lemma validate_iff:
  "validate_medical_query q = (\<exists>indicator\<in>set medical_indicators. sublist indicator (py_lower q))"
  by (simp add: validate_medical_query_def Let_def list_ex_iff py_in_sublist)

lemma validate_fever: "validate_medical_query ''What causes fever?''"
  by (simp add: validate_medical_query_def medical_indicators_def lower_char_def)

lemma validate_weather: "\<not> validate_medical_query ''What's the weather?''"
  by (simp add: validate_medical_query_def medical_indicators_def lower_char_def)

lemma validate_pneumonia: "validate_medical_query ''What are the symptoms of pneumonia?''"
  by (simp add: validate_medical_query_def medical_indicators_def lower_char_def)

subsection \<open>Generation\<close>


lemma generate_body_after_retrieval:
  assumes "fst (retrieve_relevant_context similarity_search q 4 w) = Inr context"
  shows "generate_body similarity_search groq_client q w =
     (let w1 = snd (retrieve_relevant_context similarity_search q 4 w);
          request = completion_request (prompt_head @ context @ prompt_mid @ q @ prompt_tail);
          w2 = w1\<lparr>completion_calls := completion_calls w1 @ [request]\<rparr>
      in case groq_client request of
           Inl e \<Rightarrow> (Inl e, w2)
         | Inr completion \<Rightarrow>
             (case choices completion of
                [] \<Rightarrow> (Inl (Exn IndexError ''list index out of range''), w2)
              | first # _ \<Rightarrow>
                  (case content (message first) of
                     None \<Rightarrow>
                       (Inl (Exn AttributeError
                          (quoted ''NoneType'' @ '' object has no attribute ''
                           @ quoted ''replace'')), w2)
                   | Some response \<Rightarrow>
                       (Inr (format_medical_response response),
                        print ''Medical response generated successfully'' w2))))"
proof -
  obtain r w1 where rw: "retrieve_relevant_context similarity_search q 4 w = (r, w1)"
    by (cases "retrieve_relevant_context similarity_search q 4 w")
  with assms have r: "r = Inr context" by simp
  show ?thesis
    by (simp add: generate_body_def rw r fill_prompt_closed Let_def)
qed

lemma retrieve_calls:
  "completion_calls (snd (retrieve_relevant_context similarity_search q k w)) = completion_calls w"
  by (simp add: retrieve_relevant_context_def Let_def print_def split: sum.splits)






subsection \<open>The route\<close>

lemma query_arity:
  "call_generate_medical_response similarity_search endpoint [GroqClient, Embeddings, VectorDB, Str question] w
     = (Inl (Exn TypeError ''generate_medical_response() takes 2 positional arguments but 4 were given''), w)"
  by (simp add: call_generate_medical_response_def py_str_int_def digits.simps)

lemma query_pneumonia:
  "query similarity_search endpoint now
     [''question'' \<mapsto> JString ''What are the symptoms of pneumonia?''] w
   = (Inr ([(''error'', ''Internal server error'')], 500),
      print (''['' @ now @ ''] Error during response generation: ''
             @ ''generate_medical_response() takes 2 positional arguments but 4 were given'') w)"
proof -
  have s: "py_strip ''What are the symptoms of pneumonia?'' = ''What are the symptoms of pneumonia?''"
    by (simp add: py_strip_def py_lstrip_def py_rstrip_def strip_front.simps leading_token_def
        ws_tokens_def)
  show ?thesis
    by (simp add: query_def s validate_pneumonia query_arity is_Exception_def Let_def)
qed

subsection \<open>Further facts used by the claims\<close>

lemma py_replace_collapse: "py_replace [NL, NL, NL] [NL, NL] s = collapse s"
  by (simp add: py_replace_def collapse_def)


lemma format_2f_samples:
  "format_2f (Float (7 / 8)) = ''0.88''" "format_2f (Float (1 / 2)) = ''0.50''"
  by code_simp+

lemma py_strip_samples:
  "py_strip ''  Fever is a {rise} in body temperature.  '' = ''Fever is a {rise} in body temperature.''"
  "py_strip ''Pneumonia inflames the lungs}'' = ''Pneumonia inflames the lungs}''"
  by (simp_all add: py_strip_def py_lstrip_def py_rstrip_def strip_front.simps leading_token_def
        ws_tokens_def)

lemma py_str_int_samples: "py_str_int 1 = ''1''" "py_str_int 2 = ''2''"
  by code_simp+

lemma sample_retrieval:
  "fst (retrieve_relevant_context sample_search q 4 w) = Inr sample_context"
proof -
  have "sample_search q 4
      = Inr [(''  Fever is a {rise} in body temperature.  '', Float (7 / 8), ()),
             (''Pneumonia inflames the lungs}'', Float (1 / 2), ())]"
    by (simp add: sample_search_def)
  from retrieve_nonempty [of sample_search q 4 _ w, OF this]
  show ?thesis
    by (simp add: sample_context_def context_piece_def format_2f_samples py_strip_samples
        py_str_int_samples py_repeat_def)
qed

lemma sample_answer:
  "format_medical_response ''**Fever** is a rise in temperature.''
     = ''Fever is a rise in temperature.''"
  by (simp add: format_medical_response_def py_replace_def py_strip_def py_lstrip_def
      py_rstrip_def strip_front.simps leading_token_def ws_tokens_def py_endswith_def NL_def)

lemma print_calls: "completion_calls (print line w) = completion_calls w"
  by (simp add: print_def)

lemma generate_calls:
  assumes "fst (retrieve_relevant_context similarity_search q 4
                  (print ''Generating response for query...'' w)) = Inr ctx"
  shows "completion_calls (snd (generate_medical_response similarity_search groq_client q w))
           = completion_calls w
             @ [completion_request (prompt_head @ ctx @ prompt_mid @ q @ prompt_tail)]"
proof -
  let ?w1 = "print ''Generating response for query...'' w"
  have c: "completion_calls (snd (retrieve_relevant_context similarity_search q 4 ?w1))
             = completion_calls w"
    by (simp add: retrieve_calls print_calls)
  show ?thesis
    by (simp add: generate_medical_response_def generate_body_after_retrieval [OF assms]
        Let_def c print_calls split: sum.splits list.splits option.splits prod.splits)
qed

lemma generate_answer:
  assumes "fst (retrieve_relevant_context similarity_search q 4
                  (print ''Generating response for query...'' w)) = Inr ctx"
    and "groq_client (completion_request (prompt_head @ ctx @ prompt_mid @ q @ prompt_tail))
           = Inr (ChatCompletion (Choice (ChatMessage (Some response)) # others))"
  shows "fst (generate_medical_response similarity_search groq_client q w)
           = Inr (format_medical_response response)"
  using assms(2)
  by (simp add: generate_medical_response_def generate_body_after_retrieval [OF assms(1)] Let_def)

lemma two_blocks: "length xs = 2 \<Longrightarrow> xs = [xs ! 0, xs ! 1]"
  by (cases xs; cases "tl xs") auto

lemma divider_text:
  "replicate 50 CHR ''='' = ''==================================================''"
  by code_simp

section \<open>The claims\<close>

text \<open>
  C1.  A POST to \<open>/query\<close> whose question is non-empty after trimming and has a domain
  keyword is said to get the payload \<open>{question, answer}\<close>.  The route calls
  \<open>generate_medical_response(client, embeddings, vector_db, question)\<close> with four
  positional arguments; the function takes two.  The call raises \<open>TypeError\<close>, which the
  route catches: for the question of the specification, whatever the search and the
  endpoint would do, the response is the error payload \<open>Internal server error\<close> with
  status 500.
\<close>

theorem query_valid_question_internal_error:
  "query similarity_search endpoint now
     [''question'' \<mapsto> JString ''What are the symptoms of pneumonia?''] w
   = (Inr ([(''error'', ''Internal server error'')], 500),
      print (''['' @ now @ ''] Error during response generation: ''
             @ ''generate_medical_response() takes 2 positional arguments but 4 were given'') w)"
  by (rule query_pneumonia)

text \<open>
  C2.  For every context and every question, filling the template succeeds and the prompt
  is the template with \<open>{context}\<close> and \<open>{question}\<close> replaced by the two strings: it
  contains the whole context and the whole question as they are.
\<close>

theorem fill_prompt_verbatim:
  "\<exists>prompt. fill_prompt context question = Inr prompt
     \<and> prompt = prompt_head @ context @ prompt_mid @ question @ prompt_tail
     \<and> sublist context prompt \<and> sublist question prompt"
proof -
  have "sublist question (prompt_head @ context @ prompt_mid @ question @ prompt_tail)"
    using sublist_appendI [of question "prompt_head @ context @ prompt_mid" prompt_tail]
    by simp
  then show ?thesis by (simp add: fill_prompt_closed)
qed

text \<open>
  C3.  \<open>format_medical_response\<close> is said to remove the emphasis markers, to collapse
  every run of three or more newlines to exactly two and to trim, so that \<open>**Hello**\<close>,
  four newlines, \<open>World\<close> becomes \<open>Hello\<close>, two newlines, \<open>World\<close>.  The code replaces
  three newlines by two in one pass from the left: of the four newlines the first three
  become two and the fourth stays, and the result is \<open>Hello\<close>, three newlines, \<open>World\<close>.
\<close>

theorem format_hello_world_keeps_three_newlines:
  "format_medical_response ''**Hello**\<newline>\<newline>\<newline>\<newline>World'' = ''Hello\<newline>\<newline>\<newline>World''
   \<and> format_medical_response ''**Hello**\<newline>\<newline>\<newline>\<newline>World'' \<noteq> ''Hello\<newline>\<newline>World''"
  by (simp add: format_hello_world)







text \<open>
  C6.  \<open>validate_medical_query\<close> is true exactly when the lower-cased query contains one
  of the indicator terms; it is true of \<open>What causes fever?\<close> and false of
  \<open>What's the weather?\<close>.  It is a total function to \<open>bool\<close>: it has no effect and no
  error.
\<close>

theorem validate_medical_query_keywords:
  "validate_medical_query q
     = (\<exists>indicator\<in>set medical_indicators. sublist indicator (py_lower q))
   \<and> validate_medical_query ''What causes fever?''
   \<and> \<not> validate_medical_query ''What's the weather?''"
  using validate_iff [of q] validate_fever validate_weather by (intro conjI)

text \<open>C6 on a query whose keyword is in upper case.\<close>

theorem validate_medical_query_keywords_witness:
  "validate_medical_query ''Is my HEART ok?''
   \<and> (\<exists>indicator\<in>set medical_indicators. sublist indicator (py_lower ''Is my HEART ok?''))"
proof -
  have v: "validate_medical_query ''Is my HEART ok?''"
    by (simp add: validate_medical_query_def medical_indicators_def lower_char_def)
  with validate_medical_query_keywords [of "''Is my HEART ok?''"]
  have "\<exists>indicator\<in>set medical_indicators. sublist indicator (py_lower ''Is my HEART ok?'')"
    by (simp only: simp_thms)
  with v show ?thesis by (rule conjI)
qed

text \<open>
  C7.  When the search gives no result, \<open>retrieve_relevant_context\<close> returns the fixed
  sentence that nothing relevant was found: not an error and not the empty string.
\<close>

theorem retrieve_no_results_sentinel:
  assumes "similarity_search q top_k = Inr []"
  shows "fst (retrieve_relevant_context similarity_search q top_k w)
           = Inr ''No relevant medical information found in the knowledge base.''
         \<and> fst (retrieve_relevant_context similarity_search q top_k w) \<noteq> Inr ''''"
  using assms retrieve_empty [of similarity_search q top_k w] by (simp add: no_context_def)

text \<open>C7 with a search that finds nothing.\<close>

theorem retrieve_no_results_sentinel_witness:
  "empty_search ''what is fever'' 5 = Inr []
   \<and> fst (retrieve_relevant_context empty_search ''what is fever'' 5 empty_world)
       = Inr ''No relevant medical information found in the knowledge base.''"
proof -
  have h: "empty_search ''what is fever'' 5 = Inr []" by (simp add: empty_search_def)
  from retrieve_no_results_sentinel [of empty_search "''what is fever''" 5 empty_world] h
  have "fst (retrieve_relevant_context empty_search ''what is fever'' 5 empty_world)
       = Inr ''No relevant medical information found in the knowledge base.''"
    by blast
  with h show ?thesis by (rule conjI)
qed

text \<open>
  C8.  When the search, asked for \<open>k\<close> results, gives \<open>m < k\<close> of them,
  \<open>retrieve_relevant_context\<close> returns a string (no error) made of exactly \<open>m\<close> formatted
  blocks, one for each result and none for the \<open>k - m\<close> that are missing: the block of the
  result at position \<open>j\<close> is \<open>[Source j+1 - Relevance: s]\<close>, a newline and the trimmed
  text.  For \<open>m = 0\<close> the string is the fixed sentence; otherwise it is two newlines, the
  divider, the first block, and every further block after two newlines.
\<close>

theorem retrieve_fewer_than_top_k:
  assumes "similarity_search q k = Inr results" and "int (length results) < k"
  shows "\<exists>blocks.
           length blocks = length results
         \<and> (\<forall>j<length results.
               blocks ! j = ''[Source '' @ py_str_int (int j + 1) @ '' - Relevance: ''
                            @ format_2f (fst (snd (results ! j))) @ '']'' @ [NL]
                            @ py_strip (fst (results ! j)))
         \<and> fst (retrieve_relevant_context similarity_search q k w)
             = Inr (if results = []
                    then ''No relevant medical information found in the knowledge base.''
                    else [NL, NL] @ replicate 50 CHR ''='' @ hd blocks
                         @ concat (map (\<lambda>b. [NL, NL] @ b) (tl blocks)))"
proof -
  let ?blocks = "context_loop 1 results []"
  have len: "length ?blocks = length results"
    by (rule context_loop_length)
  have join: "py_join sep bs = hd bs @ concat (map (\<lambda>b. sep @ b) (tl bs))"
    if "bs \<noteq> []" for sep :: string and bs :: "string list"
    using that by (induction sep bs rule: py_join.induct) simp_all
  have block: "?blocks ! j
      = ''[Source '' @ py_str_int (int j + 1) @ '' - Relevance: ''
        @ format_2f (fst (snd (results ! j))) @ '']'' @ [NL] @ py_strip (fst (results ! j))"
    if "j < length results" for j
    using that by (simp add: context_loop_nth context_piece_def add.commute)
  have out: "fst (retrieve_relevant_context similarity_search q k w)
          = Inr (if results = []
                 then ''No relevant medical information found in the knowledge base.''
                 else [NL, NL] @ replicate 50 CHR ''='' @ hd ?blocks
                      @ concat (map (\<lambda>b. [NL, NL] @ b) (tl ?blocks)))"
  proof (cases "results = []")
    case True
    with assms(1) show ?thesis
      by (simp add: retrieve_relevant_context_def Let_def no_context_def)
  next
    case False
    with len have ne: "?blocks \<noteq> []" by auto
    have "fst (retrieve_relevant_context similarity_search q k w)
            = Inr ([NL, NL] @ py_repeat ''='' 50 @ py_join [NL, NL] ?blocks)"
      using assms(1) False by (simp add: retrieve_relevant_context_def Let_def)
    then have "fst (retrieve_relevant_context similarity_search q k w)
            = Inr ([NL, NL] @ replicate 50 CHR ''='' @ hd ?blocks
                   @ concat (map (\<lambda>b. [NL, NL] @ b) (tl ?blocks)))"
      by (simp add: join [OF ne] py_repeat_def)
    then show ?thesis by (simp only: False if_False)
  qed
  from len block out show ?thesis by blast
qed

text \<open>
  C8 with the two sample chunks and \<open>k = 5\<close>: the whole string returned has two blocks.
\<close>

theorem retrieve_fewer_than_top_k_witness:
  "sample_search ''what is fever'' 5
     = Inr [(''  Fever is a {rise} in body temperature.  '', Float (7 / 8), ()),
            (''Pneumonia inflames the lungs}'', Float (1 / 2), ())]
   \<and> int (length [(''  Fever is a {rise} in body temperature.  '', Float (7 / 8), ()),
                (''Pneumonia inflames the lungs}'', Float (1 / 2), ())]) < 5
   \<and> fst (retrieve_relevant_context sample_search ''what is fever'' 5 empty_world)
       = Inr ''\<newline>\<newline>==================================================[Source 1 - Relevance: 0.88]\<newline>Fever is a {rise} in body temperature.\<newline>\<newline>[Source 2 - Relevance: 0.50]\<newline>Pneumonia inflames the lungs}''"
proof -
  have "fst (retrieve_relevant_context sample_search ''what is fever'' 5 empty_world)
       = Inr ''\<newline>\<newline>==================================================[Source 1 - Relevance: 0.88]\<newline>Fever is a {rise} in body temperature.\<newline>\<newline>[Source 2 - Relevance: 0.50]\<newline>Pneumonia inflames the lungs}''"
    by code_simp
  let ?results = "[(''  Fever is a {rise} in body temperature.  '', Float (7 / 8), ()),
                   (''Pneumonia inflames the lungs}'', Float (1 / 2), ())]"
  have s: "sample_search ''what is fever'' 5 = Inr ?results"
    by (simp add: sample_search_def)
  have lt: "int (length ?results) < 5" by simp
  have ne: "?results \<noteq> []" by simp
  from retrieve_fewer_than_top_k [of sample_search "''what is fever''" 5 ?results empty_world] s lt
  obtain blocks where b:
    "length blocks = length ?results"
    "\<forall>j<length ?results.
        blocks ! j = ''[Source '' @ py_str_int (int j + 1) @ '' - Relevance: ''
                     @ format_2f (fst (snd (?results ! j))) @ '']'' @ [NL]
                     @ py_strip (fst (?results ! j))"
    "fst (retrieve_relevant_context sample_search ''what is fever'' 5 empty_world)
       = Inr (if ?results = []
              then ''No relevant medical information found in the knowledge base.''
              else [NL, NL] @ replicate 50 CHR ''='' @ hd blocks
                   @ concat (map (\<lambda>b. [NL, NL] @ b) (tl blocks)))"
    by blast
  from b(3) ne have r: "fst (retrieve_relevant_context sample_search ''what is fever'' 5 empty_world)
       = Inr ([NL, NL] @ replicate 50 CHR ''='' @ hd blocks
              @ concat (map (\<lambda>b. [NL, NL] @ b) (tl blocks)))"
    by (simp only: if_False)
  from b(2) have "blocks ! 0 = ''[Source '' @ py_str_int (int 0 + 1) @ '' - Relevance: ''
                     @ format_2f (fst (snd (?results ! 0))) @ '']'' @ [NL]
                     @ py_strip (fst (?results ! 0))"
    by simp
  then have b0: "blocks ! 0 = ''[Source 1 - Relevance: 0.88]'' @ [NL] @ ''Fever is a {rise} in body temperature.''"
    by (simp add: format_2f_samples py_strip_samples py_str_int_samples)
  from b(2) have "blocks ! 1 = ''[Source '' @ py_str_int (int 1 + 1) @ '' - Relevance: ''
                     @ format_2f (fst (snd (?results ! 1))) @ '']'' @ [NL]
                     @ py_strip (fst (?results ! 1))"
    by simp
  then have b1: "blocks ! 1 = ''[Source 2 - Relevance: 0.50]'' @ [NL] @ ''Pneumonia inflames the lungs}''"
    by (simp add: format_2f_samples py_strip_samples py_str_int_samples)
  from b(1) have "length blocks = 2" by simp
  then have "blocks = [blocks ! 0, blocks ! 1]" by (rule two_blocks)
  then have bl: "blocks = [''[Source 1 - Relevance: 0.88]'' @ [NL] @ ''Fever is a {rise} in body temperature.'',
                    ''[Source 2 - Relevance: 0.50]'' @ [NL] @ ''Pneumonia inflames the lungs}'']"
    by (simp only: b0 b1)
  have "fst (retrieve_relevant_context sample_search ''what is fever'' 5 empty_world)
       = Inr ''\<newline>\<newline>==================================================[Source 1 - Relevance: 0.88]\<newline>Fever is a {rise} in body temperature.\<newline>\<newline>[Source 2 - Relevance: 0.50]\<newline>Pneumonia inflames the lungs}''"
    unfolding r bl divider_text by (simp add: NL_def)
  with s lt show ?thesis by (intro conjI)
qed



text \<open>
  C10, as stated, fails: \<open>str.format\<close> reads braces in the template only.  The question
  \<open>what is {\<close> passes the validator, the chunks found contain braces too, and the prompt
  with both in it is sent to the endpoint, whose answer is returned.
\<close>

theorem brace_question_reaches_endpoint_counterexample:
  "validate_medical_query ''what is {''
   \<and> fst (generate_medical_response sample_search sample_endpoint ''what is {'' empty_world)
       = Inr ''Fever is a rise in temperature.''
   \<and> completion_calls
         (snd (generate_medical_response sample_search sample_endpoint ''what is {'' empty_world))
       = [completion_request
            (prompt_head @ sample_context @ prompt_mid @ ''what is {'' @ prompt_tail)]"
proof -
  let ?q = "''what is {''"
  have v: "validate_medical_query ?q"
    by (simp add: validate_medical_query_def medical_indicators_def lower_char_def)
  have r: "fst (retrieve_relevant_context sample_search ?q 4
                  (print ''Generating response for query...'' empty_world)) = Inr sample_context"
    by (rule sample_retrieval)
  have e: "sample_endpoint
             (completion_request (prompt_head @ sample_context @ prompt_mid @ ?q @ prompt_tail))
           = Inr (ChatCompletion
                    (Choice (ChatMessage (Some ''**Fever** is a rise in temperature.'')) # []))"
    by (simp add: sample_endpoint_def)
  have a: "fst (generate_medical_response sample_search sample_endpoint ?q empty_world)
             = Inr ''Fever is a rise in temperature.''"
    using generate_answer [of sample_search ?q empty_world sample_context sample_endpoint
        "''**Fever** is a rise in temperature.''" "[]", OF r e]
    by (simp only: sample_answer)
  have c: "completion_calls
             (snd (generate_medical_response sample_search sample_endpoint ?q empty_world))
           = [completion_request (prompt_head @ sample_context @ prompt_mid @ ?q @ prompt_tail)]"
    using generate_calls [OF r, of sample_endpoint] by (simp add: empty_world_def)
  from v a c show ?thesis by (intro conjI)
qed

text \<open>
  C10, amended.  Whatever braces the question and the retrieved context contain, filling
  the template does not raise: both are copied into the prompt as they are, and whenever
  retrieval succeeds the completion endpoint is called once, with that prompt.
\<close>

theorem braces_copied_to_endpoint:
  assumes "fst (retrieve_relevant_context similarity_search q 4
                  (print ''Generating response for query...'' w)) = Inr context"
  shows "fill_prompt context q = Inr (prompt_head @ context @ prompt_mid @ q @ prompt_tail)
         \<and> completion_calls (snd (generate_medical_response similarity_search groq_client q w))
             = completion_calls w
               @ [completion_request (prompt_head @ context @ prompt_mid @ q @ prompt_tail)]"
  using generate_calls [OF assms, of groq_client] by (simp add: fill_prompt_closed)

text \<open>The amended C10 on a question with unbalanced braces.\<close>

theorem braces_copied_to_endpoint_witness:
  "fst (retrieve_relevant_context sample_search ''how to treat a {fever}}'' 4
          (print ''Generating response for query...'' empty_world)) = Inr sample_context
   \<and> fill_prompt sample_context ''how to treat a {fever}}''
       = Inr (prompt_head @ sample_context @ prompt_mid @ ''how to treat a {fever}}''
              @ prompt_tail)
   \<and> completion_calls
         (snd (generate_medical_response sample_search sample_endpoint
                 ''how to treat a {fever}}'' empty_world))
       = [completion_request
            (prompt_head @ sample_context @ prompt_mid @ ''how to treat a {fever}}''
             @ prompt_tail)]"
proof -
  let ?q = "''how to treat a {fever}}''"
  have r: "fst (retrieve_relevant_context sample_search ?q 4
                  (print ''Generating response for query...'' empty_world)) = Inr sample_context"
    by (rule sample_retrieval)
  have "completion_calls empty_world = []" by (simp add: empty_world_def)
  with braces_copied_to_endpoint [OF r, of sample_endpoint] r show ?thesis
    by (simp only: append_Nil simp_thms)
qed

end
